theory Spec2Isabelle
  imports Main "HOL-Library.AList" "HOL-Library.List_Lexorder" "HOL-Library.Char_ord"
    "HOL-Library.Product_Lexorder"
begin

section \<open>JavaScript values\<close>

text \<open>
  The handlers work on values produced by \<^verbatim>\<open>JSON.parse\<close> and on the \<^verbatim>\<open>undefined\<close>
  that reading a missing property gives. \<open>JNum\<close> holds the numbers that are integers;
  fractional numbers are floating point and are not part of this development. An object
  is the list of its own properties, its keys distinct; \<open>map_of\<close> reads it. The list
  is in the order the properties were defined (JavaScript itself enumerates keys that are
  array indices first).
\<close>

datatype jsval =
    JUndefined
  | JNull
  | JBool bool
  | JNum int
  | JStr string
  | JArr "jsval list"
  | JObj "(string \<times> jsval) list"

subsection \<open>Decimal text of a number\<close>

definition digit_char :: "nat \<Rightarrow> char" where
  "digit_char d = char_of (48 + d)"

function show_nat :: "nat \<Rightarrow> string" where
  "show_nat n = (if n < 10 then [digit_char n] else show_nat (n div 10) @ [digit_char (n mod 10)])"
  by pat_completeness auto
termination
  by (relation "measure (\<lambda>n. n)") auto

declare show_nat.simps [simp del]

definition show_int :: "int \<Rightarrow> string" where
  "show_int i = (if i < 0 then CHR ''-'' # show_nat (nat (- i)) else show_nat (nat i))"

subsection \<open>Template literals and property reads\<close>

text \<open>
  What a handler can find thrown: by \<^verbatim>\<open>JSON.parse\<close>, by a property read on
  \<^verbatim>\<open>null\<close> or the conversion of an object to a string, by the schema's \<^verbatim>\<open>parse\<close>, by
  the SDK outside a request (a value it cannot convert), or by the store answering a
  request with a fault.
\<close>

datatype store_fault =
    ServiceUnavailable
  | ResourceNotFoundException
  | ValidationException
  | TransactionCanceledException

datatype js_error =
    SyntaxError
  | TypeError
  | ZodError
  | SdkError
  | StoreFault store_fault

text \<open>
  \<open>js_to_string v\<close> is the text a template literal \<^verbatim>\<open>`${v}`\<close> interpolates: a string
  is itself, \<^verbatim>\<open>undefined\<close> and \<^verbatim>\<open>null\<close> are spelled out, an array joins its elements
  with commas (a \<^verbatim>\<open>null\<close> or \<^verbatim>\<open>undefined\<close> element gives the empty text), an object is
  \<^verbatim>\<open>[object Object]\<close>. An object that has a property \<^verbatim>\<open>toString\<close> of its own (never a
  function, in a parsed body) cannot be converted: a TypeError is thrown. The text of a
  number is its decimal digits, as JavaScript prints an integer below \<^verbatim>\<open>1e21\<close>.
\<close>

fun js_to_string :: "jsval \<Rightarrow> js_error + string"
  and js_join :: "jsval list \<Rightarrow> js_error + string" where
  "js_to_string JUndefined = Inr ''undefined''"
| "js_to_string JNull = Inr ''null''"
| "js_to_string (JBool b) = Inr (if b then ''true'' else ''false'')"
| "js_to_string (JNum n) = Inr (show_int n)"
| "js_to_string (JStr s) = Inr s"
| "js_to_string (JArr xs) = js_join xs"
| "js_to_string (JObj kvs) =
     (if map_of kvs ''toString'' = None then Inr ''[object Object]'' else Inl TypeError)"
| "js_join [] = Inr []"
| "js_join (x # xs) =
     (case (case x of JUndefined \<Rightarrow> Inr [] | JNull \<Rightarrow> Inr [] | _ \<Rightarrow> js_to_string x) of
        Inl e \<Rightarrow> Inl e
      | Inr s \<Rightarrow>
          (if xs = [] then Inr s
           else case js_join xs of Inl e \<Rightarrow> Inl e | Inr t \<Rightarrow> Inr (s @ '','' @ t)))"

text \<open>
  \<open>get_prop v k\<close> is the read \<^verbatim>\<open>v.k\<close> for a property name \<open>k\<close> that no prototype
  defines (\<^verbatim>\<open>recipeId\<close>, \<^verbatim>\<open>userName\<close>): it throws a TypeError on \<^verbatim>\<open>null\<close> and
  \<^verbatim>\<open>undefined\<close>, finds an own property of an object, and is \<^verbatim>\<open>undefined\<close> otherwise.
\<close>

fun get_prop :: "jsval \<Rightarrow> string \<Rightarrow> js_error + jsval" where
  "get_prop JUndefined k = Inl TypeError"
| "get_prop JNull k = Inl TypeError"
| "get_prop (JObj kvs) k = Inr (case map_of kvs k of None \<Rightarrow> JUndefined | Some v \<Rightarrow> v)"
| "get_prop v k = Inr JUndefined"

text \<open>
  \<open>own_props v\<close> lists what the spread \<^verbatim>\<open>...v\<close> copies into an object literal: the own
  enumerable properties. An array and a string spread their indices; a number, a
  boolean, \<^verbatim>\<open>null\<close> and \<^verbatim>\<open>undefined\<close> spread nothing.
\<close>

fun indexed :: "nat \<Rightarrow> jsval list \<Rightarrow> (string \<times> jsval) list" where
  "indexed i [] = []"
| "indexed i (x # xs) = (show_nat i, x) # indexed (Suc i) xs"

fun own_props :: "jsval \<Rightarrow> (string \<times> jsval) list" where
  "own_props (JObj kvs) = kvs"
| "own_props (JArr xs) = indexed 0 xs"
| "own_props (JStr s) = indexed 0 (map (\<lambda>c. JStr [c]) s)"
| "own_props v = []"

text \<open>
  An object literal defines its properties from left to right; defining a key that is
  already there replaces its value and keeps its place.
\<close>

definition spread :: "(string \<times> jsval) list \<Rightarrow> (string \<times> jsval) list \<Rightarrow> (string \<times> jsval) list" where
  "spread obj props = fold (\<lambda>(k, v). AList.update k v) props obj"

section \<open>The table\<close>

text \<open>
  The store keeps items as maps from attribute names to typed attribute values. The
  string, number, boolean, null, list and map types are covered (the types a JSON
  payload marshalls to); numbers are integers, as for \<open>jsval\<close>.
\<close>

datatype attr =
    S string
  | N int
  | BOOL bool
  | NULL
  | L "attr list"
  | M "(string \<times> attr) list"

type_synonym raw_item = "(string \<times> attr) list"

subsection \<open>Marshalling between JavaScript values and attribute values\<close>

text \<open>
  What the document layer of the SDK (\<^verbatim>\<open>@aws-sdk/lib-dynamodb\<close>) does to the input of a
  command, with the default options. Each value of a \<^verbatim>\<open>Key\<close>, an \<^verbatim>\<open>Item\<close> or the
  \<^verbatim>\<open>ExpressionAttributeValues\<close> is converted on its own; a value that is \<^verbatim>\<open>undefined\<close> is
  left out of the request. Inside a value, converting \<^verbatim>\<open>undefined\<close> or a number outside
  the safe integer range throws: the result is \<open>None\<close>. An object is converted as a map
  when its \<^verbatim>\<open>constructor\<close> is \<^verbatim>\<open>Object\<close>: that is, when it has no property
  \<^verbatim>\<open>constructor\<close> of its own, or one that is falsy or has the name \<^verbatim>\<open>Object\<close>. With any
  other own \<^verbatim>\<open>constructor\<close> the SDK throws, unless its name is that of a wrapper or
  binary class, for which it builds an attribute that \<open>attr\<close> does not hold; both are
  \<open>None\<close> here. The converted map is filled by assignment, so a key \<^verbatim>\<open>__proto__\<close> does
  not become an attribute.
\<close>

definition safe_integer :: "int \<Rightarrow> bool" where
  "safe_integer n = (- 9007199254740991 \<le> n \<and> n \<le> 9007199254740991)"

fun truthy :: "jsval \<Rightarrow> bool" where
  "truthy JUndefined = False"
| "truthy JNull = False"
| "truthy (JBool b) = b"
| "truthy (JNum n) = (n \<noteq> 0)"
| "truthy (JStr s) = (s \<noteq> [])"
| "truthy (JArr xs) = True"
| "truthy (JObj kvs) = True"

definition plain_object :: "(string \<times> jsval) list \<Rightarrow> bool" where
  "plain_object kvs =
     (case map_of kvs ''constructor'' of
        None \<Rightarrow> True
      | Some c \<Rightarrow>
          (if truthy c
           then (case c of JObj ckvs \<Rightarrow> map_of ckvs ''name'' = Some (JStr ''Object'') | _ \<Rightarrow> False)
           else True))"

fun convertToAttr :: "jsval \<Rightarrow> attr option"
  and convertToListAttr :: "jsval list \<Rightarrow> attr list option"
  and convertToMapAttr :: "(string \<times> jsval) list \<Rightarrow> (string \<times> attr) list option" where
  "convertToAttr JUndefined = None"
| "convertToAttr JNull = Some NULL"
| "convertToAttr (JBool b) = Some (BOOL b)"
| "convertToAttr (JNum n) = (if safe_integer n then Some (N n) else None)"
| "convertToAttr (JStr s) = Some (S s)"
| "convertToAttr (JArr xs) = map_option L (convertToListAttr xs)"
| "convertToAttr (JObj kvs) =
     (if plain_object kvs then map_option M (convertToMapAttr kvs) else None)"
| "convertToListAttr [] = Some []"
| "convertToListAttr (x # xs) =
     (case convertToAttr x of None \<Rightarrow> None
      | Some a \<Rightarrow> map_option ((#) a) (convertToListAttr xs))"
| "convertToMapAttr [] = Some []"
| "convertToMapAttr (kv # kvs) =
     (case convertToAttr (snd kv) of None \<Rightarrow> None
      | Some a \<Rightarrow>
          map_option (if fst kv = ''__proto__'' then id else (#) (fst kv, a))
            (convertToMapAttr kvs))"

fun marshall :: "(string \<times> jsval) list \<Rightarrow> raw_item option" where
  "marshall [] = Some []"
| "marshall (kv # kvs) =
     (if snd kv = JUndefined then marshall kvs
      else case convertToAttr (snd kv) of None \<Rightarrow> None
        | Some a \<Rightarrow>
            map_option (if fst kv = ''__proto__'' then id else (#) (fst kv, a)) (marshall kvs))"

text \<open>
  The way back, which the document layer applies to the output of a command: an item of
  the table becomes a JavaScript object. A number outside the safe integer range has no
  value in \<open>jsval\<close> (the SDK gives a BigInt): the result is \<open>None\<close>.
\<close>

fun native :: "attr \<Rightarrow> jsval option"
  and native_list :: "attr list \<Rightarrow> jsval list option"
  and native_map :: "(string \<times> attr) list \<Rightarrow> (string \<times> jsval) list option" where
  "native (S s) = Some (JStr s)"
| "native (N n) = (if safe_integer n then Some (JNum n) else None)"
| "native (BOOL b) = Some (JBool b)"
| "native NULL = Some JNull"
| "native (L xs) = map_option JArr (native_list xs)"
| "native (M kvs) = map_option JObj (native_map kvs)"
| "native_list [] = Some []"
| "native_list (x # xs) =
     (case native x of None \<Rightarrow> None
      | Some v \<Rightarrow> map_option ((#) v) (native_list xs))"
| "native_map [] = Some []"
| "native_map (kv # kvs) =
     (case native (snd kv) of None \<Rightarrow> None
      | Some v \<Rightarrow>
          map_option (if fst kv = ''__proto__'' then id else (#) (fst kv, v)) (native_map kvs))"

fun native_items :: "raw_item list \<Rightarrow> (string \<times> jsval) list list option" where
  "native_items [] = Some []"
| "native_items (x # xs) =
     (case native_map x of None \<Rightarrow> None
      | Some v \<Rightarrow> map_option ((#) v) (native_items xs))"

subsection \<open>The handler's own unmarshall\<close>

text \<open>
  \<^verbatim>\<open>unmarshall\<close> of \<^verbatim>\<open>@aws-sdk/util-dynamodb\<close>, as it acts on whatever JavaScript object it
  is given. It converts the value of every property, in order, and throws when one of
  them throws. Converting a value looks at the value's own properties for a type tag: a
  string, a number, a boolean and an array have none (a non-empty string and an array
  have index properties, which are not type tags), so the conversion throws; \<^verbatim>\<open>null\<close>
  and \<^verbatim>\<open>undefined\<close> have no properties to list, a TypeError. What an object converts to
  depends on its first property being a type tag and on that tag's value, which can be a
  value outside \<open>jsval\<close>; it is left open as the parameter \<open>tagged\<close>.
\<close>

definition convertToNative ::
  "((string \<times> jsval) list \<Rightarrow> js_error + jsval) \<Rightarrow> jsval \<Rightarrow> js_error + jsval" where
  "convertToNative tagged v =
     (case v of
        JObj kvs \<Rightarrow> tagged kvs
      | JUndefined \<Rightarrow> Inl TypeError
      | JNull \<Rightarrow> Inl TypeError
      | _ \<Rightarrow> Inl SdkError)"

fun unmarshall ::
  "((string \<times> jsval) list \<Rightarrow> js_error + jsval) \<Rightarrow> (string \<times> jsval) list
     \<Rightarrow> js_error + (string \<times> jsval) list" where
  "unmarshall tagged [] = Inr []"
| "unmarshall tagged (kv # kvs) =
     (case convertToNative tagged (snd kv) of
        Inl e \<Rightarrow> Inl e
      | Inr v \<Rightarrow>
          (case unmarshall tagged kvs of
             Inl e \<Rightarrow> Inl e
           | Inr rest \<Rightarrow> Inr (if fst kv = ''__proto__'' then rest else (fst kv, v) # rest)))"

subsection \<open>Commands\<close>

text \<open>
  The three commands the handlers build, with the parameters of their input objects. A
  parameter the handler leaves out is \<open>None\<close>. The one update expression in use is
  \<^verbatim>\<open>SET a = b + :v\<close>.
\<close>

datatype update_expr = SetPlus string string string

datatype transact_item =
    Update "string option" "(string \<times> jsval) list" update_expr "(string \<times> jsval) list"
  | Put "string option" "(string \<times> jsval) list"

datatype command =
    ScanCommand "string option" "string option" "(string \<times> jsval) list option"
  | GetCommand "string option" "(string \<times> jsval) list"
  | TransactWriteCommand "transact_item list"

subsection \<open>The table and its key schema\<close>

text \<open>
  One table (\<^verbatim>\<open>appStack.ts\<close>): partition key \<^verbatim>\<open>PK\<close> and sort key \<^verbatim>\<open>SK\<close>, both
  strings. \<open>available\<close> is whether the store answers at all; \<open>page_limit\<close> is how
  many items one Scan response holds (the store cuts a response at a size limit and
  hands back the key to resume from); \<open>sent\<close> records every command given to a
  client's \<^verbatim>\<open>send\<close>.
\<close>

record db =
  table_name :: string
  items :: "raw_item list"
  page_limit :: nat
  available :: bool
  sent :: "command list"

definition primary_key :: "raw_item \<Rightarrow> (string \<times> string) option" where
  "primary_key it =
     (case (map_of it ''PK'', map_of it ''SK'') of
        (Some (S p), Some (S s)) \<Rightarrow> (if p \<noteq> [] \<and> s \<noteq> [] then Some (p, s) else None)
      | _ \<Rightarrow> None)"

text \<open>A \<^verbatim>\<open>Key\<close> parameter must name the key attributes and nothing else.\<close>

definition key_of_Key :: "raw_item \<Rightarrow> (string \<times> string) option" where
  "key_of_Key k = (if length k = 2 then primary_key k else None)"

definition key_item :: "string \<times> string \<Rightarrow> raw_item" where
  "key_item k = [(''PK'', S (fst k)), (''SK'', S (snd k))]"

definition lookup_item :: "raw_item list \<Rightarrow> string \<times> string \<Rightarrow> raw_item option" where
  "lookup_item its k = find (\<lambda>it. primary_key it = Some k) its"

fun put_item :: "raw_item \<Rightarrow> raw_item list \<Rightarrow> raw_item list" where
  "put_item it [] = [it]"
| "put_item it (x # xs) =
     (if primary_key x = primary_key it then it # xs else x # put_item it xs)"

definition table_fault :: "db \<Rightarrow> string option \<Rightarrow> store_fault option" where
  "table_fault d tn =
     (if \<not> available d then Some ServiceUnavailable
      else case tn of
        None \<Rightarrow> Some ValidationException
      | Some t \<Rightarrow> (if t = table_name d then None else Some ResourceNotFoundException))"

subsection \<open>Scan\<close>

text \<open>
  A Scan without an index name walks the whole table in the store's own order (the order
  of \<open>items\<close>), from the item after the start key, and returns one page with the key of
  its last item when more items follow. The two indexes of the stack are
  \<^verbatim>\<open>GSI1_SK\<close> (on \<^verbatim>\<open>SK\<close>) and \<^verbatim>\<open>GSI2_TYPE\<close> (on \<^verbatim>\<open>recordType\<close>, sorted by
  \<^verbatim>\<open>createdAt\<close>); a Scan of an index sees the items that carry the index's key
  attributes as strings, and any other index name is a fault.
\<close>

definition is_string_attr :: "raw_item \<Rightarrow> string \<Rightarrow> bool" where
  "is_string_attr it a = (case map_of it a of Some (S x) \<Rightarrow> True | _ \<Rightarrow> False)"

definition string_attr :: "raw_item \<Rightarrow> string \<Rightarrow> string" where
  "string_attr it a = (case map_of it a of Some (S x) \<Rightarrow> x | _ \<Rightarrow> [])"

definition index_view :: "string \<Rightarrow> raw_item list \<Rightarrow> raw_item list option" where
  "index_view ix its =
     (if ix = ''GSI1_SK'' then
        Some (sort_key (\<lambda>it. string_attr it ''SK'') (filter (\<lambda>it. is_string_attr it ''SK'') its))
      else if ix = ''GSI2_TYPE'' then
        Some (sort_key (\<lambda>it. (string_attr it ''recordType'', string_attr it ''createdAt''))
               (filter (\<lambda>it. is_string_attr it ''recordType'' \<and> is_string_attr it ''createdAt'') its))
      else None)"

fun after_key :: "raw_item option \<Rightarrow> raw_item list \<Rightarrow> raw_item list" where
  "after_key None its = its"
| "after_key (Some k) [] = []"
| "after_key (Some k) (x # xs) =
     (if primary_key x = primary_key k then xs else after_key (Some k) xs)"

text \<open>
  The output of a Scan sent as the document layer's \<^verbatim>\<open>ScanCommand\<close>: the items and the
  key to resume from arrive as JavaScript objects, already unmarshalled.
\<close>

record scan_output =
  Items :: "(string \<times> jsval) list list option"
  LastEvaluatedKey :: "(string \<times> jsval) list option"

definition key_object :: "string \<times> string \<Rightarrow> (string \<times> jsval) list" where
  "key_object k = [(''PK'', JStr (fst k)), (''SK'', JStr (snd k))]"

definition last_key :: "nat \<Rightarrow> raw_item list \<Rightarrow> (string \<times> jsval) list option" where
  "last_key lim its =
     (if lim < length its \<and> 0 < lim
      then map_option key_object (primary_key (its ! (lim - 1))) else None)"

definition send_scan ::
  "db \<Rightarrow> string option \<Rightarrow> string option \<Rightarrow> (string \<times> jsval) list option
     \<Rightarrow> (js_error + scan_output) \<times> db" where
  "send_scan d tn ix start =
     (let d' = d\<lparr>sent := sent d @ [ScanCommand tn ix start]\<rparr> in
      case (case start of None \<Rightarrow> Some None | Some k \<Rightarrow> map_option Some (marshall k)) of
        None \<Rightarrow> (Inl SdkError, d')
      | Some raw_start \<Rightarrow>
          (case table_fault d tn of
             Some f \<Rightarrow> (Inl (StoreFault f), d')
           | None \<Rightarrow>
               (case (case ix of None \<Rightarrow> Some (items d) | Some i \<Rightarrow> index_view i (items d)) of
                  None \<Rightarrow> (Inl (StoreFault ValidationException), d')
                | Some view \<Rightarrow>
                    (case native_items (take (page_limit d) (after_key raw_start view)) of
                       None \<Rightarrow> (Inl SdkError, d')
                     | Some page \<Rightarrow>
                         (Inr \<lparr> Items = Some page,
                                LastEvaluatedKey =
                                  last_key (page_limit d) (after_key raw_start view) \<rparr>,
                          d')))))"

subsection \<open>Get\<close>

text \<open>
  The document client marshalls the key, the store looks the item up by its primary key,
  and the client unmarshalls what comes back.
\<close>

definition send_get ::
  "db \<Rightarrow> string option \<Rightarrow> (string \<times> jsval) list
     \<Rightarrow> (js_error + (string \<times> jsval) list option) \<times> db" where
  "send_get d tn key =
     (let d' = d\<lparr>sent := sent d @ [GetCommand tn key]\<rparr> in
      case marshall key of
        None \<Rightarrow> (Inl SdkError, d')
      | Some k \<Rightarrow>
          (case table_fault d tn of
             Some f \<Rightarrow> (Inl (StoreFault f), d')
           | None \<Rightarrow>
               (case key_of_Key k of
                  None \<Rightarrow> (Inl (StoreFault ValidationException), d')
                | Some pk \<Rightarrow>
                    (case lookup_item (items d) pk of
                       None \<Rightarrow> (Inr None, d')
                     | Some it \<Rightarrow>
                         (case native_map it of
                            None \<Rightarrow> (Inl SdkError, d')
                          | Some v \<Rightarrow> (Inr (Some v), d'))))))"

subsection \<open>TransactWrite\<close>

text \<open>
  All operations of a transaction are applied, or none is. The request is refused as a
  whole when it is empty, when an \<^verbatim>\<open>Update\<close>'s \<^verbatim>\<open>Key\<close> is not a primary key of the table,
  when a \<^verbatim>\<open>Put\<close>'s item lacks the key attributes, or when two operations name the same
  item. An \<^verbatim>\<open>Update\<close> of an absent item starts from the bare key; an expression that reads
  an attribute the item does not have as a number, or that assigns a key attribute,
  cancels the transaction.
\<close>

datatype raw_op =
    RUpdate raw_item update_expr raw_item
  | RPut raw_item

fun marshall_op :: "transact_item \<Rightarrow> raw_op option" where
  "marshall_op (Update tn key e vals) =
     (case (marshall key, marshall vals) of
        (Some k, Some v) \<Rightarrow> Some (RUpdate k e v)
      | _ \<Rightarrow> None)"
| "marshall_op (Put tn item) = map_option RPut (marshall item)"

fun marshall_ops :: "transact_item list \<Rightarrow> raw_op list option" where
  "marshall_ops [] = Some []"
| "marshall_ops (x # xs) =
     (case marshall_op x of None \<Rightarrow> None
      | Some r \<Rightarrow> map_option ((#) r) (marshall_ops xs))"

fun op_table :: "transact_item \<Rightarrow> string option" where
  "op_table (Update tn key e vals) = tn"
| "op_table (Put tn item) = tn"

fun op_key :: "raw_op \<Rightarrow> (string \<times> string) option" where
  "op_key (RUpdate k e v) = key_of_Key k"
| "op_key (RPut it) = primary_key it"

fun op_keys :: "raw_op list \<Rightarrow> (string \<times> string) list option" where
  "op_keys [] = Some []"
| "op_keys (x # xs) =
     (case op_key x of None \<Rightarrow> None
      | Some k \<Rightarrow> map_option ((#) k) (op_keys xs))"

fun ops_fault :: "db \<Rightarrow> transact_item list \<Rightarrow> store_fault option" where
  "ops_fault d [] = (if available d then None else Some ServiceUnavailable)"
| "ops_fault d (x # xs) =
     (case table_fault d (op_table x) of Some f \<Rightarrow> Some f | None \<Rightarrow> ops_fault d xs)"

fun apply_update :: "update_expr \<Rightarrow> raw_item \<Rightarrow> raw_item \<Rightarrow> raw_item option" where
  "apply_update (SetPlus a b v) vals it =
     (if a = ''PK'' \<or> a = ''SK'' then None
      else case (map_of it b, map_of vals v) of
        (Some (N x), Some (N y)) \<Rightarrow> Some (AList.update a (N (x + y)) it)
      | _ \<Rightarrow> None)"

fun apply_op :: "raw_op \<Rightarrow> raw_item list \<Rightarrow> raw_item list option" where
  "apply_op (RPut it) its = Some (put_item it its)"
| "apply_op (RUpdate k e v) its =
     (case key_of_Key k of
        None \<Rightarrow> None
      | Some pk \<Rightarrow>
          (case apply_update e v (case lookup_item its pk of None \<Rightarrow> key_item pk | Some it \<Rightarrow> it) of
             None \<Rightarrow> None
           | Some it' \<Rightarrow> Some (put_item it' its)))"

fun apply_ops :: "raw_op list \<Rightarrow> raw_item list \<Rightarrow> raw_item list option" where
  "apply_ops [] its = Some its"
| "apply_ops (x # xs) its =
     (case apply_op x its of None \<Rightarrow> None | Some its' \<Rightarrow> apply_ops xs its')"

definition send_transact :: "db \<Rightarrow> transact_item list \<Rightarrow> (js_error + unit) \<times> db" where
  "send_transact d ops =
     (let d' = d\<lparr>sent := sent d @ [TransactWriteCommand ops]\<rparr> in
      case marshall_ops ops of
        None \<Rightarrow> (Inl SdkError, d')
      | Some rops \<Rightarrow>
          (case ops_fault d ops of
             Some f \<Rightarrow> (Inl (StoreFault f), d')
           | None \<Rightarrow>
               (case op_keys rops of
                  None \<Rightarrow> (Inl (StoreFault ValidationException), d')
                | Some ks \<Rightarrow>
                    if ks \<noteq> [] \<and> distinct ks
                    then
                      (case apply_ops rops (items d) of
                         None \<Rightarrow> (Inl (StoreFault TransactionCanceledException), d')
                       | Some its \<Rightarrow> (Inr (), d'\<lparr>items := its\<rparr>))
                    else (Inl (StoreFault ValidationException), d'))))"

section \<open>The handlers\<close>

text \<open>
  A handler takes the process environment, the event and the store, and gives back what
  the invocation ends with, a response or an exception it did not catch, together with
  the store afterwards. Log output is not modelled.
\<close>

text \<open>
  The event's body, by what \<^verbatim>\<open>JSON.parse\<close> makes of it: \<open>Missing\<close> is a body that is
  \<^verbatim>\<open>null\<close>, \<^verbatim>\<open>undefined\<close> or the empty string, \<open>Malformed\<close> is a text that is not
  JSON, \<open>Json v\<close> is a text that parses to \<open>v\<close>.
\<close>

datatype event_body = Missing | Malformed | Json jsval

record event =
  body :: event_body
  pathParameters :: "(string \<times> string) list option"

text \<open>
  \<open>ApiResponse\<close> stands for the call \<^verbatim>\<open>apiResponse(statusCode, message, data)\<close> of
  \<^verbatim>\<open>utils/response\<close>, kept as its three arguments. \<open>Response\<close> is an object literal
  with a status code and a body.
\<close>

datatype payload =
    NoData
  | ItemData "(string \<times> jsval) list"
  | ErrorData js_error
  | WriteOutput

datatype response_body =
    BodyText string
  | BodyJson string "(string \<times> jsval) list list option"
      "(string \<times> jsval) list list option"

datatype response =
    ApiResponse nat string payload
  | Response nat response_body

fun statusCode :: "response \<Rightarrow> nat" where
  "statusCode (ApiResponse c m p) = c"
| "statusCode (Response c b) = c"

subsection \<open>likeRecipe\<close>

text \<open>
  \<^verbatim>\<open>JSON.parse(event.body || {})\<close>: a missing body is replaced by an empty object, whose
  text \<^verbatim>\<open>[object Object]\<close> is not JSON, so the parse throws as it does for a malformed body.
\<close>

fun parse_body :: "event_body \<Rightarrow> js_error + jsval" where
  "parse_body Missing = Inl SyntaxError"
| "parse_body Malformed = Inl SyntaxError"
| "parse_body (Json v) = Inr v"

definition newItem :: "jsval \<Rightarrow> js_error + (string \<times> jsval) list" where
  "newItem b =
     (case get_prop b ''recipeId'' of
        Inl e \<Rightarrow> Inl e
      | Inr rid \<Rightarrow>
          (case js_to_string rid of
             Inl e \<Rightarrow> Inl e
           | Inr pk \<Rightarrow>
               (case get_prop b ''userName'' of
                  Inl e \<Rightarrow> Inl e
                | Inr un \<Rightarrow>
                    (case js_to_string un of
                       Inl e \<Rightarrow> Inl e
                     | Inr sk \<Rightarrow>
                         Inr (spread [(''PK'', JStr (''LIKE#'' @ pk)),
                                      (''SK'', JStr (''LIKE#'' @ sk))]
                                (own_props b))))))"

definition params :: "string option \<Rightarrow> jsval \<Rightarrow> (string \<times> jsval) list \<Rightarrow> transact_item list" where
  "params table rid item =
     [Update table [(''recipeId'', rid)] (SetPlus ''likeCount'' ''likeCount'' '':increment'')
        [('':increment'', JNum 1)],
      Put table item]"

text \<open>
  The schema \<^verbatim>\<open>Like\<close> of \<^verbatim>\<open>schemas/like\<close> is a parameter: \<open>schema item\<close> is whether
  \<^verbatim>\<open>Like.parse(item)\<close> returns rather than throws. Its result is not used.
\<close>

definition likeRecipe ::
  "((string \<times> jsval) list \<Rightarrow> bool) \<Rightarrow> (string \<Rightarrow> string option) \<Rightarrow> event \<Rightarrow> db
     \<Rightarrow> (js_error + response) \<times> db" where
  "likeRecipe schema env ev d =
     (case parse_body (body ev) of
        Inl e \<Rightarrow> (Inl e, d)
      | Inr b \<Rightarrow>
          (case newItem b of
             Inl e \<Rightarrow> (Inl e, d)
           | Inr item \<Rightarrow>
               (case get_prop b ''recipeId'' of
                  Inl e \<Rightarrow> (Inl e, d)
                | Inr rid \<Rightarrow>
                    if \<not> schema item
                    then (Inr (ApiResponse 500 ''Error: Cannot create like'' (ErrorData ZodError)), d)
                    else
                      (case send_transact d (params (env ''AWS_DYNAMODB_TABLE'') rid item) of
                         (Inl e, d') \<Rightarrow>
                           (Inr (ApiResponse 500 ''Error: Cannot create like'' (ErrorData e)), d')
                       | (Inr u, d') \<Rightarrow>
                           (Inr (ApiResponse 201 ''Success: Like created'' WriteOutput), d')))))"

subsection \<open>getRecipe\<close>

definition getRecipe :: "(string \<Rightarrow> string option) \<Rightarrow> event \<Rightarrow> db \<Rightarrow> (js_error + response) \<times> db" where
  "getRecipe env ev d =
     (case pathParameters ev of
        None \<Rightarrow> (Inl TypeError, d)
      | Some pp \<Rightarrow>
          (case (map_of pp ''id'', map_of pp ''username'') of
             (Some i, Some u) \<Rightarrow>
               if i = [] \<or> u = []
               then (Inr (ApiResponse 400 ''Error: Invalid ID or username'' NoData), d)
               else
                 (case send_get d (env ''AWS_DYNAMODB_TABLE'')
                         [(''PK'', JStr (''USER#'' @ u)), (''SK'', JStr (''RECIPE#'' @ i))] of
                    (Inl e, d') \<Rightarrow>
                      (Inr (ApiResponse 500 ''Error: Item not retrieved'' (ErrorData e)), d')
                  | (Inr None, d') \<Rightarrow> (Inr (ApiResponse 404 ''Error: Item not found'' NoData), d')
                  | (Inr (Some it), d') \<Rightarrow>
                      (Inr (ApiResponse 200 ''Success: Item retrieved'' (ItemData it)), d'))
           | _ \<Rightarrow> (Inr (ApiResponse 400 ''Error: Invalid ID or username'' NoData), d)))"

subsection \<open>getAllRecipes\<close>

text \<open>
  \<^verbatim>\<open>Items?.map((item) => unmarshall(item))\<close>: the handler unmarshalls every item of the
  output, which the document layer has unmarshalled already.
\<close>

fun unmarshall_all ::
  "((string \<times> jsval) list \<Rightarrow> js_error + jsval) \<Rightarrow> (string \<times> jsval) list list
     \<Rightarrow> js_error + (string \<times> jsval) list list" where
  "unmarshall_all tagged [] = Inr []"
| "unmarshall_all tagged (x # xs) =
     (case unmarshall tagged x of
        Inl e \<Rightarrow> Inl e
      | Inr v \<Rightarrow>
          (case unmarshall_all tagged xs of Inl e \<Rightarrow> Inl e | Inr vs \<Rightarrow> Inr (v # vs)))"

definition getAllRecipes ::
  "((string \<times> jsval) list \<Rightarrow> js_error + jsval) \<Rightarrow> (string \<Rightarrow> string option) \<Rightarrow> event \<Rightarrow> db
     \<Rightarrow> (js_error + response) \<times> db" where
  "getAllRecipes tagged env ev d =
     (case send_scan d (env ''AWS_TABLE_NAME'') None None of
        (Inl e, d') \<Rightarrow> (Inr (Response 500 (BodyText ''Server Error'')), d')
      | (Inr out, d') \<Rightarrow>
          (case Items out of
             None \<Rightarrow>
               (Inr (Response 200 (BodyJson ''Successfully retrieved recipes'' None None)), d')
           | Some its \<Rightarrow>
               (case unmarshall_all tagged its of
                  Inl e \<Rightarrow> (Inr (Response 500 (BodyText ''Server Error'')), d')
                | Inr data \<Rightarrow>
                    (Inr (Response 200
                            (BodyJson ''Successfully retrieved recipes'' (Some data) (Some its))),
                     d'))))"

text \<open>
  The environment the stack gives every handler (\<^verbatim>\<open>nodeFunctionConfig.environment\<close> in
  \<^verbatim>\<open>appStack.ts\<close>).
\<close>

definition stack_env :: "string \<Rightarrow> string \<Rightarrow> string \<Rightarrow> string option" where
  "stack_env tn region = map_of [(''AWS_DYNAMODB_TABLE'', tn), (''REGION'', region)]"

section \<open>Tables the store can hold\<close>


section \<open>A table, requests and a schema to run the handlers on\<close>

text \<open>
  Modelled from the spec: the schema \<^verbatim>\<open>Like\<close> of \<^verbatim>\<open>schemas/like\<close>, which is not among
  the sources. By the data model (section 3) a Like item has the keys \<^verbatim>\<open>LIKE#<recipeId>\<close>
  and \<^verbatim>\<open>LIKE#<username>\<close>, a \<^verbatim>\<open>createdAt\<close> and the record type \<^verbatim>\<open>LIKE\<close>. It instantiates
  the schema parameter of \<open>likeRecipe\<close> in the runs below.
\<close>

definition Like_schema :: "(string \<times> jsval) list \<Rightarrow> bool" where
  "Like_schema item =
     (case (map_of item ''PK'', map_of item ''SK'', map_of item ''createdAt'',
            map_of item ''recordType'') of
        (Some (JStr p), Some (JStr s), Some (JStr c), Some (JStr t)) \<Rightarrow>
          take 5 p = ''LIKE#'' \<and> 5 < length p \<and> take 5 s = ''LIKE#'' \<and> 5 < length s
          \<and> t = ''LIKE''
      | _ \<Rightarrow> False)"

definition user_alice :: raw_item where
  "user_alice =
     [(''PK'', S ''USER#alice''), (''SK'', S ''USER#alice''),
      (''createdAt'', S ''2024-01-05''), (''recordType'', S ''USER'')]"

definition recipe_r1 :: raw_item where
  "recipe_r1 =
     [(''PK'', S ''USER#alice''), (''SK'', S ''RECIPE#r1''), (''likeCount'', N 0),
      (''createdAt'', S ''2024-02-01''), (''recordType'', S ''RECIPE'')]"

definition recipe_r2 :: raw_item where
  "recipe_r2 =
     [(''PK'', S ''USER#alice''), (''SK'', S ''RECIPE#r2''), (''likeCount'', N 3),
      (''createdAt'', S ''2024-01-10''), (''recordType'', S ''RECIPE'')]"

definition like_r2_carol :: raw_item where
  "like_r2_carol =
     [(''PK'', S ''LIKE#r2''), (''SK'', S ''LIKE#carol''),
      (''createdAt'', S ''2024-01-11''), (''recordType'', S ''LIKE'')]"

definition db0 :: db where
  "db0 = \<lparr> table_name = ''MyRecipes'', items = [user_alice, recipe_r1],
           page_limit = 100, available = True, sent = [] \<rparr>"

definition db1 :: db where
  "db1 = \<lparr> table_name = ''MyRecipes'',
           items = [recipe_r1, like_r2_carol, recipe_r2, user_alice],
           page_limit = 2, available = True, sent = [] \<rparr>"

text \<open>
  \<open>env0\<close> is the environment of the deployed stack; \<open>env1\<close> is one that sets the
  variable \<open>getAllRecipes\<close> reads.
\<close>

definition env0 :: "string \<Rightarrow> string option" where
  "env0 = stack_env ''MyRecipes'' ''us-east-1''"

definition env1 :: "string \<Rightarrow> string option" where
  "env1 = map_of [(''AWS_TABLE_NAME'', ''MyRecipes'')]"

definition like_body :: jsval where
  "like_body =
     JObj [(''recipeId'', JStr ''r1''), (''userName'', JStr ''bob''),
           (''createdAt'', JStr ''2024-03-01''), (''recordType'', JStr ''LIKE'')]"

definition like_item :: "(string \<times> jsval) list" where
  "like_item =
     [(''PK'', JStr ''LIKE#r1''), (''SK'', JStr ''LIKE#bob''),
      (''recipeId'', JStr ''r1''), (''userName'', JStr ''bob''),
      (''createdAt'', JStr ''2024-03-01''), (''recordType'', JStr ''LIKE'')]"

definition keyed_body :: jsval where
  "keyed_body =
     JObj [(''recipeId'', JStr ''r1''), (''userName'', JStr ''bob''),
           (''PK'', JStr ''LIKE#r2''), (''SK'', JStr ''LIKE#eve''),
           (''createdAt'', JStr ''2024-03-01''), (''recordType'', JStr ''LIKE'')]"

definition keyed_item :: "(string \<times> jsval) list" where
  "keyed_item =
     [(''PK'', JStr ''LIKE#r2''), (''SK'', JStr ''LIKE#eve''),
      (''recipeId'', JStr ''r1''), (''userName'', JStr ''bob''),
      (''createdAt'', JStr ''2024-03-01''), (''recordType'', JStr ''LIKE'')]"

definition bare_body :: jsval where
  "bare_body = JObj [(''recipeId'', JStr ''r1''), (''userName'', JStr ''bob'')]"

definition bare_item :: "(string \<times> jsval) list" where
  "bare_item =
     [(''PK'', JStr ''LIKE#r1''), (''SK'', JStr ''LIKE#bob''),
      (''recipeId'', JStr ''r1''), (''userName'', JStr ''bob'')]"

text \<open>
  A table that holds the one recipe, the object the document layer makes of that item,
  and an empty table.
\<close>

definition db2 :: db where
  "db2 = \<lparr> table_name = ''MyRecipes'', items = [recipe_r1],
           page_limit = 100, available = True, sent = [] \<rparr>"

definition recipe_r1_object :: "(string \<times> jsval) list" where
  "recipe_r1_object =
     [(''PK'', JStr ''USER#alice''), (''SK'', JStr ''RECIPE#r1''), (''likeCount'', JNum 0),
      (''createdAt'', JStr ''2024-02-01''), (''recordType'', JStr ''RECIPE'')]"

definition db_empty :: db where
  "db_empty = \<lparr> table_name = ''MyRecipes'', items = [],
               page_limit = 100, available = True, sent = [] \<rparr>"

text \<open>
  No item of these tables holds a map, so the runs below never ask what an object
  unmarshalls to; there the parameter \<open>tagged\<close> is the function that throws.
\<close>

definition no_tag :: "(string \<times> jsval) list \<Rightarrow> js_error + jsval" where
  "no_tag kvs = Inl SdkError"

definition post :: "jsval \<Rightarrow> event" where
  "post b = \<lparr> body = Json b, pathParameters = None \<rparr>"

definition no_body :: event where
  "no_body = \<lparr> body = Missing, pathParameters = None \<rparr>"

definition path :: "string \<Rightarrow> string \<Rightarrow> event" where
  "path u i = \<lparr> body = Missing, pathParameters = Some [(''username'', u), (''id'', i)] \<rparr>"

section \<open>Facts shared by the proofs\<close>

lemmas example_defs =
  db0_def db1_def db2_def db_empty_def env0_def env1_def stack_env_def post_def no_body_def
  path_def like_body_def like_item_def keyed_body_def keyed_item_def bare_body_def
  bare_item_def user_alice_def recipe_r1_def recipe_r2_def like_r2_carol_def
  recipe_r1_object_def no_tag_def

lemmas handler_defs =
  likeRecipe_def getRecipe_def getAllRecipes_def newItem_def params_def spread_def

lemmas store_defs =
  send_transact_def send_get_def send_scan_def table_fault_def key_of_Key_def
  primary_key_def lookup_item_def last_key_def key_object_def key_item_def safe_integer_def
  plain_object_def convertToNative_def Let_def

lemma map_of_spread:
  "map_of (spread obj props) k =
     (case map_of (rev props) k of Some v \<Rightarrow> Some v | None \<Rightarrow> map_of obj k)"
  unfolding spread_def
  by (induction props arbitrary: obj) (auto simp: update_conv' split: option.splits)

text \<open>
  When the body has no property of that name, the item's \<^verbatim>\<open>PK\<close> is the computed one;
  likewise for \<^verbatim>\<open>SK\<close>.
\<close>

lemma newItem_PK:
  assumes "newItem b = Inr item" and "''PK'' \<notin> fst ` set (own_props b)"
  shows "\<exists>rid pk. get_prop b ''recipeId'' = Inr rid \<and> js_to_string rid = Inr pk
           \<and> map_of item ''PK'' = Some (JStr (''LIKE#'' @ pk))"
proof -
  from assms(2) have "map_of (rev (own_props b)) ''PK'' = None"
    by (simp add: map_of_eq_None_iff)
  with assms(1) show ?thesis
    by (auto simp: newItem_def map_of_spread split: sum.splits)
qed

lemma newItem_SK:
  assumes "newItem b = Inr item" and "''SK'' \<notin> fst ` set (own_props b)"
  shows "\<exists>un sk. get_prop b ''userName'' = Inr un \<and> js_to_string un = Inr sk
           \<and> map_of item ''SK'' = Some (JStr (''LIKE#'' @ sk))"
proof -
  from assms(2) have "map_of (rev (own_props b)) ''SK'' = None"
    by (simp add: map_of_eq_None_iff)
  with assms(1) show ?thesis
    by (auto simp: newItem_def map_of_spread split: sum.splits)
qed

text \<open>A transaction that the store refuses or cancels leaves the table as it was.\<close>

lemma send_transact_all_or_nothing:
  assumes "send_transact d ops = (Inl e, d')"
  shows "items d' = items d"
  using assms
  by (auto simp: send_transact_def Let_def split: option.splits if_splits)

text \<open>
  A transaction whose \<^verbatim>\<open>Update\<close> names the recipe by the table's primary key is applied: the
  count of \<^verbatim>\<open>r1\<close> becomes 1 and the Like item is stored.
\<close>

lemma send_transact_on_primary_key:
  "send_transact db0
     [Update (Some ''MyRecipes'') [(''PK'', JStr ''USER#alice''), (''SK'', JStr ''RECIPE#r1'')]
        (SetPlus ''likeCount'' ''likeCount'' '':increment'') [('':increment'', JNum 1)],
      Put (Some ''MyRecipes'') like_item]
   = (Inr (),
      db0\<lparr>sent :=
            [TransactWriteCommand
               [Update (Some ''MyRecipes'')
                  [(''PK'', JStr ''USER#alice''), (''SK'', JStr ''RECIPE#r1'')]
                  (SetPlus ''likeCount'' ''likeCount'' '':increment'') [('':increment'', JNum 1)],
                Put (Some ''MyRecipes'') like_item]],
          items :=
            [user_alice,
             [(''PK'', S ''USER#alice''), (''SK'', S ''RECIPE#r1''), (''likeCount'', N 1),
              (''createdAt'', S ''2024-02-01''), (''recordType'', S ''RECIPE'')],
             [(''PK'', S ''LIKE#r1''), (''SK'', S ''LIKE#bob''),
              (''recipeId'', S ''r1''), (''userName'', S ''bob''),
              (''createdAt'', S ''2024-03-01''), (''recordType'', S ''LIKE'')]]\<rparr>)"
  by (simp add: example_defs store_defs)

text \<open>
  The \<^verbatim>\<open>Key\<close> of the handler's \<^verbatim>\<open>Update\<close> has the single property \<^verbatim>\<open>recipeId\<close>, so it
  is never a primary key of the table, and the store refuses the transaction whatever the
  table holds.
\<close>

lemma marshall_length: "marshall kvs = Some r \<Longrightarrow> length r \<le> length kvs"
  by (induction kvs arbitrary: r) (auto split: if_splits option.splits)

lemma key_of_Key_recipeId:
  assumes "marshall [(''recipeId'', rid)] = Some k"
  shows "key_of_Key k = None"
proof -
  from assms have "length k \<le> 1"
    using marshall_length by fastforce
  then show ?thesis by (simp add: key_of_Key_def)
qed

lemma send_transact_params:
  "\<exists>e. send_transact d (params tn rid item) =
          (Inl e, d\<lparr>sent := sent d @ [TransactWriteCommand (params tn rid item)]\<rparr>)"
proof (cases "marshall_ops (params tn rid item)")
  case None
  then show ?thesis by (simp add: send_transact_def Let_def)
next
  case (Some rops)
  then obtain k v it where rops: "rops = [RUpdate k (SetPlus ''likeCount'' ''likeCount'' '':increment'') v, RPut it]"
    and k: "marshall [(''recipeId'', rid)] = Some k"
    by (auto simp: params_def split: option.splits)
  from k have "key_of_Key k = None" by (rule key_of_Key_recipeId)
  with rops have "op_keys rops = None" by simp
  with Some show ?thesis
    by (simp add: send_transact_def Let_def split: option.splits)
qed

lemma likeRecipe_never_commits:
  "items (snd (likeRecipe schema env ev d)) = items d
   \<and> fst (likeRecipe schema env ev d) \<noteq> Inr (ApiResponse 201 ''Success: Like created'' WriteOutput)"
proof (cases "parse_body (body ev)")
  case (Inl e)
  then show ?thesis by (simp add: likeRecipe_def)
next
  case b: (Inr b)
  show ?thesis
  proof (cases "newItem b")
    case (Inl e)
    with b show ?thesis by (simp add: likeRecipe_def)
  next
    case item: (Inr item)
    show ?thesis
    proof (cases "get_prop b ''recipeId''")
      case (Inl e)
      with b item show ?thesis by (simp add: likeRecipe_def)
    next
      case rid: (Inr rid)
      obtain e where "send_transact d (params (env ''AWS_DYNAMODB_TABLE'') rid item) =
          (Inl e, d\<lparr>sent := sent d @
             [TransactWriteCommand (params (env ''AWS_DYNAMODB_TABLE'') rid item)]\<rparr>)"
        using send_transact_params by blast
      with b item rid show ?thesis by (simp add: likeRecipe_def)
    qed
  qed
qed





lemma getAllRecipes_store:
  "snd (getAllRecipes tagged env ev d) =
     d\<lparr>sent := sent d @ [ScanCommand (env ''AWS_TABLE_NAME'') None None]\<rparr>"
  by (simp add: getAllRecipes_def send_scan_def Let_def split: option.splits sum.splits)


section \<open>The like transaction\<close>

text \<open>
  C1 (the like is one all-or-nothing transaction that increments \<^verbatim>\<open>likeCount\<close> by one and
  inserts the Like item). Run on a table that holds the recipe \<^verbatim>\<open>r1\<close> with a body the
  schema accepts: the store refuses the transaction with a validation fault, because the
  \<^verbatim>\<open>Key\<close> of the \<^verbatim>\<open>Update\<close> is \<^verbatim>\<open>{recipeId}\<close> and not the table's primary key; the handler
  answers 500, the count stays 0 and no Like item is stored.
\<close>

theorem likeRecipe_refused_on_existing_recipe:
  "likeRecipe Like_schema env0 (post like_body) db0 =
     (Inr (ApiResponse 500 ''Error: Cannot create like''
             (ErrorData (StoreFault ValidationException))),
      db0\<lparr>sent := [TransactWriteCommand (params (Some ''MyRecipes'') (JStr ''r1'') like_item)]\<rparr>)"
  by (simp add: example_defs handler_defs store_defs Like_schema_def)

text \<open>
  C2 (liking twice with the same pair gives one success and one conflict, and the count
  rises by one). Two calls in sequence on the same table: both answer 500 and the table
  is as it was, the count of \<^verbatim>\<open>r1\<close> still 0.
\<close>

theorem likeRecipe_twice_both_refused:
  "(case likeRecipe Like_schema env0 (post like_body) db0 of
      (r1, d1) \<Rightarrow>
        (case likeRecipe Like_schema env0 (post like_body) d1 of
           (r2, d2) \<Rightarrow> (map_sum id statusCode r1, map_sum id statusCode r2, items d2)))
   = (Inr 500, Inr 500, [user_alice, recipe_r1])"
  by (simp add: example_defs handler_defs store_defs Like_schema_def)

text \<open>
  C3 (the Like item's keys are \<^verbatim>\<open>LIKE#\<close> followed by the recipe id and the user name,
  whatever else the body carries). A body that carries \<^verbatim>\<open>PK\<close> and \<^verbatim>\<open>SK\<close> of its own: the
  spread comes after the computed keys and replaces them, the schema accepts the item, and
  the \<^verbatim>\<open>Put\<close> is sent with the keys \<^verbatim>\<open>LIKE#r2\<close> and \<^verbatim>\<open>LIKE#eve\<close> for the recipe \<^verbatim>\<open>r1\<close> and
  the user \<^verbatim>\<open>bob\<close>.
\<close>

theorem likeRecipe_body_replaces_keys:
  "newItem keyed_body = Inr keyed_item
   \<and> map_of keyed_item ''PK'' = Some (JStr ''LIKE#r2'')
   \<and> map_of keyed_item ''SK'' = Some (JStr ''LIKE#eve'')
   \<and> Like_schema keyed_item
   \<and> sent (snd (likeRecipe Like_schema env0 (post keyed_body) db0)) =
       [TransactWriteCommand
          [Update (Some ''MyRecipes'') [(''recipeId'', JStr ''r1'')]
             (SetPlus ''likeCount'' ''likeCount'' '':increment'') [('':increment'', JNum 1)],
           Put (Some ''MyRecipes'') keyed_item]]"
  by (simp add: example_defs handler_defs store_defs Like_schema_def)

section \<open>Listing\<close>

text \<open>
  C4, as amended: \<open>getAllRecipes\<close> sends exactly one command, a Scan of the base table
  with no index name and no start key, and changes nothing in the table; it does not read
  the event, so it takes no continuation token.
\<close>

theorem getAllRecipes_one_base_scan:
  "snd (getAllRecipes tagged env ev d) =
     d\<lparr>sent := sent d @ [ScanCommand (env ''AWS_TABLE_NAME'') None None]\<rparr>
   \<and> getAllRecipes tagged env ev' d = getAllRecipes tagged env ev d"
proof (intro conjI)
  show "snd (getAllRecipes tagged env ev d) =
      d\<lparr>sent := sent d @ [ScanCommand (env ''AWS_TABLE_NAME'') None None]\<rparr>"
    by (rule getAllRecipes_store)
  show "getAllRecipes tagged env ev' d = getAllRecipes tagged env ev d"
    by (simp add: getAllRecipes_def)
qed

text \<open>The amended C4 on a table of four items.\<close>

theorem getAllRecipes_one_base_scan_witness:
  "snd (getAllRecipes no_tag env1 no_body db1) =
     db1\<lparr>sent := [ScanCommand (Some ''MyRecipes'') None None]\<rparr>"
  using getAllRecipes_one_base_scan [of no_tag env1 no_body db1]
  by (simp add: example_defs)

text \<open>
  C4 as stated fails: on a table that holds two recipes, the one command sent is a Scan
  that names no index, and the response is 500 with neither an item nor a token.
\<close>

theorem getAllRecipes_listing_counterexample:
  "sent (snd (getAllRecipes no_tag env1 no_body db1)) =
     [ScanCommand (Some ''MyRecipes'') None None]
   \<and> fst (getAllRecipes no_tag env1 no_body db1) = Inr (Response 500 (BodyText ''Server Error''))
   \<and> recipe_r1 \<in> set (items db1) \<and> recipe_r2 \<in> set (items db1)"
  by (simp add: example_defs handler_defs store_defs)



text \<open>
  C9 (decoding the stored item of a recipe gives the recipe back). On a table that holds
  the recipe \<^verbatim>\<open>r1\<close>, the Scan hands the handler the recipe as a JavaScript object; the
  handler's \<open>unmarshall\<close> of that object throws on its first string, and the handler answers
  500 instead of the recipe.
\<close>

theorem getAllRecipes_unmarshalls_twice:
  "fst (send_scan db2 (Some ''MyRecipes'') None None) =
     Inr \<lparr> Items = Some [recipe_r1_object], LastEvaluatedKey = None \<rparr>
   \<and> unmarshall tagged recipe_r1_object = Inl SdkError
   \<and> getAllRecipes tagged env1 no_body db2 =
       (Inr (Response 500 (BodyText ''Server Error'')),
        db2\<lparr>sent := [ScanCommand (Some ''MyRecipes'') None None]\<rparr>)"
  by (simp add: example_defs handler_defs store_defs)

section \<open>Reading one recipe\<close>

text \<open>
  C6, as amended: for a username and an id that are both non-empty, when the environment
  names the table, the store answers and no item is stored under
  \<^verbatim>\<open>PK = "USER#" + username\<close>, \<^verbatim>\<open>SK = "RECIPE#" + id\<close>, \<open>getRecipe\<close> sends one Get at
  exactly that key and answers 404.
\<close>

theorem getRecipe_absent_is_404:
  assumes "pathParameters ev = Some pp"
    and "map_of pp ''id'' = Some i" and "map_of pp ''username'' = Some u"
    and "i \<noteq> []" and "u \<noteq> []"
    and "env ''AWS_DYNAMODB_TABLE'' = Some (table_name d)" and "available d"
    and "lookup_item (items d) (''USER#'' @ u, ''RECIPE#'' @ i) = None"
  shows "getRecipe env ev d =
           (Inr (ApiResponse 404 ''Error: Item not found'' NoData),
            d\<lparr>sent := sent d @ [GetCommand (Some (table_name d))
                 [(''PK'', JStr (''USER#'' @ u)), (''SK'', JStr (''RECIPE#'' @ i))]]\<rparr>)"
  using assms
  by (simp add: getRecipe_def send_get_def table_fault_def key_of_Key_def
      primary_key_def Let_def)

text \<open>The amended C6 for the recipe \<^verbatim>\<open>r9\<close> of \<^verbatim>\<open>alice\<close>, which the table does not hold.\<close>

theorem getRecipe_absent_is_404_witness:
  "lookup_item (items db0) (''USER#alice'', ''RECIPE#r9'') = None
   \<and> getRecipe env0 (path ''alice'' ''r9'') db0 =
       (Inr (ApiResponse 404 ''Error: Item not found'' NoData),
        db0\<lparr>sent := [GetCommand (Some ''MyRecipes'')
               [(''PK'', JStr ''USER#alice''), (''SK'', JStr ''RECIPE#r9'')]]\<rparr>)"
  using getRecipe_absent_is_404 [of "path ''alice'' ''r9''"
      "[(''username'', ''alice''), (''id'', ''r9'')]" "''r9''" "''alice''" env0 db0]
  by (simp add: example_defs lookup_item_def primary_key_def)

text \<open>
  C6 as stated fails: with an empty id no recipe was ever created under the pair, and the
  handler answers 400 without reading; and when the store does not answer, the handler
  answers 500 for a recipe that was never created.
\<close>

theorem getRecipe_absent_counterexample:
  "lookup_item (items db0) (''USER#alice'', ''RECIPE#'') = None
   \<and> getRecipe env0 (path ''alice'' []) db0 =
       (Inr (ApiResponse 400 ''Error: Invalid ID or username'' NoData), db0)
   \<and> lookup_item (items db0) (''USER#alice'', ''RECIPE#r9'') = None
   \<and> fst (getRecipe env0 (path ''alice'' ''r9'') (db0\<lparr>available := False\<rparr>)) =
       Inr (ApiResponse 500 ''Error: Item not retrieved''
              (ErrorData (StoreFault ServiceUnavailable)))"
  by (simp add: example_defs handler_defs store_defs)

section \<open>Validation, parsing and failures\<close>

text \<open>
  C7: when the schema rejects the candidate Like item, \<open>likeRecipe\<close> answers 500 with the
  schema's error and the store is exactly as before: no command was given to the client,
  and the table is unchanged.
\<close>

theorem likeRecipe_validation_before_write:
  assumes "body ev = Json b" and "newItem b = Inr item" and "\<not> schema item"
  shows "likeRecipe schema env ev d =
           (Inr (ApiResponse 500 ''Error: Cannot create like'' (ErrorData ZodError)), d)"
  using assms by (cases b) (simp_all add: likeRecipe_def newItem_def split: sum.splits)

text \<open>C7 for a body without \<^verbatim>\<open>createdAt\<close> and \<^verbatim>\<open>recordType\<close>, which the schema rejects.\<close>

theorem likeRecipe_validation_before_write_witness:
  "newItem bare_body = Inr bare_item \<and> \<not> Like_schema bare_item
   \<and> likeRecipe Like_schema env0 (post bare_body) db0 =
       (Inr (ApiResponse 500 ''Error: Cannot create like'' (ErrorData ZodError)), db0)"
  using likeRecipe_validation_before_write
      [of "post bare_body" bare_body bare_item Like_schema env0 db0]
  by (simp add: example_defs newItem_def spread_def Like_schema_def)

text \<open>
  C8, as amended: the handlers do not classify failures; each cause has one fixed status
  and message. \<open>likeRecipe\<close> answers 500 when the schema rejects the item, with the
  schema's error as data and the store untouched, and 500 with the same message when
  \<^verbatim>\<open>send\<close> throws, with the caught error as data. \<open>getRecipe\<close> answers 400 without
  reading when the id or the username is missing or empty, 500 when \<^verbatim>\<open>send\<close> throws, with
  the caught error as data (the store's own fault when the store does not answer), and
  404 when the read finds no item. \<open>getAllRecipes\<close> answers 500 with the text
  \<^verbatim>\<open>Server Error\<close> when \<^verbatim>\<open>send\<close> throws and when its \<open>unmarshall\<close> throws.
\<close>

theorem handler_failures:
  "(parse_body (body ev) = Inr b \<and> newItem b = Inr item \<and> \<not> schema item \<longrightarrow>
      likeRecipe schema env ev d =
        (Inr (ApiResponse 500 ''Error: Cannot create like'' (ErrorData ZodError)), d))
   \<and> (parse_body (body ev) = Inr b \<and> newItem b = Inr item
        \<and> get_prop b ''recipeId'' = Inr rid \<and> schema item
        \<and> send_transact d (params (env ''AWS_DYNAMODB_TABLE'') rid item) = (Inl e1, d1) \<longrightarrow>
      likeRecipe schema env ev d =
        (Inr (ApiResponse 500 ''Error: Cannot create like'' (ErrorData e1)), d1))
   \<and> (pathParameters ev = Some pp
        \<and> (map_of pp ''id'' = None \<or> map_of pp ''id'' = Some []
            \<or> map_of pp ''username'' = None \<or> map_of pp ''username'' = Some []) \<longrightarrow>
      getRecipe env ev d =
        (Inr (ApiResponse 400 ''Error: Invalid ID or username'' NoData), d))
   \<and> (pathParameters ev = Some pp \<and> map_of pp ''id'' = Some i \<and> map_of pp ''username'' = Some u
        \<and> i \<noteq> [] \<and> u \<noteq> []
        \<and> send_get d (env ''AWS_DYNAMODB_TABLE'')
             [(''PK'', JStr (''USER#'' @ u)), (''SK'', JStr (''RECIPE#'' @ i))] = (Inl e2, d2) \<longrightarrow>
      getRecipe env ev d =
        (Inr (ApiResponse 500 ''Error: Item not retrieved'' (ErrorData e2)), d2))
   \<and> (pathParameters ev = Some pp \<and> map_of pp ''id'' = Some i \<and> map_of pp ''username'' = Some u
        \<and> i \<noteq> [] \<and> u \<noteq> [] \<and> \<not> available d \<longrightarrow>
      fst (getRecipe env ev d) =
        Inr (ApiResponse 500 ''Error: Item not retrieved''
               (ErrorData (StoreFault ServiceUnavailable))))
   \<and> (pathParameters ev = Some pp \<and> map_of pp ''id'' = Some i \<and> map_of pp ''username'' = Some u
        \<and> i \<noteq> [] \<and> u \<noteq> []
        \<and> send_get d (env ''AWS_DYNAMODB_TABLE'')
             [(''PK'', JStr (''USER#'' @ u)), (''SK'', JStr (''RECIPE#'' @ i))] = (Inr None, d3) \<longrightarrow>
      getRecipe env ev d = (Inr (ApiResponse 404 ''Error: Item not found'' NoData), d3))
   \<and> (send_scan d (env ''AWS_TABLE_NAME'') None None = (Inl e4, d4) \<longrightarrow>
      getAllRecipes tagged env ev d = (Inr (Response 500 (BodyText ''Server Error'')), d4))
   \<and> (send_scan d (env ''AWS_TABLE_NAME'') None None = (Inr out, d5) \<and> Items out = Some its
        \<and> unmarshall_all tagged its = Inl e5 \<longrightarrow>
      getAllRecipes tagged env ev d = (Inr (Response 500 (BodyText ''Server Error'')), d5))"
proof (intro conjI impI; (elim conjE)?)
  assume "parse_body (body ev) = Inr b" "newItem b = Inr item" "\<not> schema item"
  then show "likeRecipe schema env ev d =
      (Inr (ApiResponse 500 ''Error: Cannot create like'' (ErrorData ZodError)), d)"
    by (cases b) (simp_all add: likeRecipe_def newItem_def split: sum.splits)
next
  assume "parse_body (body ev) = Inr b" "newItem b = Inr item"
    "get_prop b ''recipeId'' = Inr rid" "schema item"
    "send_transact d (params (env ''AWS_DYNAMODB_TABLE'') rid item) = (Inl e1, d1)"
  then show "likeRecipe schema env ev d =
      (Inr (ApiResponse 500 ''Error: Cannot create like'' (ErrorData e1)), d1)"
    by (simp add: likeRecipe_def)
next
  assume pp: "pathParameters ev = Some pp"
    and bad: "map_of pp ''id'' = None \<or> map_of pp ''id'' = Some []
      \<or> map_of pp ''username'' = None \<or> map_of pp ''username'' = Some []"
  show "getRecipe env ev d =
      (Inr (ApiResponse 400 ''Error: Invalid ID or username'' NoData), d)"
  proof (cases "map_of pp ''id''")
    case None
    with pp show ?thesis by (simp add: getRecipe_def)
  next
    case i: (Some i')
    show ?thesis
    proof (cases "map_of pp ''username''")
      case None
      with pp i show ?thesis by (simp add: getRecipe_def)
    next
      case (Some u')
      with bad i have "i' = [] \<or> u' = []" by simp
      with pp i Some show ?thesis by (simp add: getRecipe_def)
    qed
  qed
next
  assume "pathParameters ev = Some pp" "map_of pp ''id'' = Some i"
    "map_of pp ''username'' = Some u" "i \<noteq> []" "u \<noteq> []"
    "send_get d (env ''AWS_DYNAMODB_TABLE'')
       [(''PK'', JStr (''USER#'' @ u)), (''SK'', JStr (''RECIPE#'' @ i))] = (Inl e2, d2)"
  then show "getRecipe env ev d =
      (Inr (ApiResponse 500 ''Error: Item not retrieved'' (ErrorData e2)), d2)"
    by (simp add: getRecipe_def)
next
  assume "pathParameters ev = Some pp" "map_of pp ''id'' = Some i"
    "map_of pp ''username'' = Some u" "i \<noteq> []" "u \<noteq> []" "\<not> available d"
  then show "fst (getRecipe env ev d) =
      Inr (ApiResponse 500 ''Error: Item not retrieved''
             (ErrorData (StoreFault ServiceUnavailable)))"
    by (simp add: getRecipe_def send_get_def table_fault_def Let_def)
next
  assume "pathParameters ev = Some pp" "map_of pp ''id'' = Some i"
    "map_of pp ''username'' = Some u" "i \<noteq> []" "u \<noteq> []"
    "send_get d (env ''AWS_DYNAMODB_TABLE'')
       [(''PK'', JStr (''USER#'' @ u)), (''SK'', JStr (''RECIPE#'' @ i))] = (Inr None, d3)"
  then show "getRecipe env ev d = (Inr (ApiResponse 404 ''Error: Item not found'' NoData), d3)"
    by (simp add: getRecipe_def)
next
  assume "send_scan d (env ''AWS_TABLE_NAME'') None None = (Inl e4, d4)"
  then show "getAllRecipes tagged env ev d =
      (Inr (Response 500 (BodyText ''Server Error'')), d4)"
    by (simp add: getAllRecipes_def)
next
  assume "send_scan d (env ''AWS_TABLE_NAME'') None None = (Inr out, d5)" "Items out = Some its"
    "unmarshall_all tagged its = Inl e5"
  then show "getAllRecipes tagged env ev d =
      (Inr (Response 500 (BodyText ''Server Error'')), d5)"
    by (simp add: getAllRecipes_def)
qed

text \<open>
  The amended C8 on runs that fail: a like the schema rejects, a like the store refuses,
  a read with an empty id, a read while the store does not answer, a read of a recipe the
  table does not hold, a listing in the deployed environment, which does not set the
  variable the handler reads, and a listing of a table that holds items.
\<close>

theorem handler_failures_witness:
  "likeRecipe Like_schema env0 (post bare_body) db0 =
     (Inr (ApiResponse 500 ''Error: Cannot create like'' (ErrorData ZodError)), db0)
   \<and> fst (likeRecipe Like_schema env0 (post like_body) db0) =
     Inr (ApiResponse 500 ''Error: Cannot create like''
            (ErrorData (StoreFault ValidationException)))
   \<and> getRecipe env0 (path ''alice'' []) db0 =
     (Inr (ApiResponse 400 ''Error: Invalid ID or username'' NoData), db0)
   \<and> fst (getRecipe env0 (path ''alice'' ''r1'') (db0\<lparr>available := False\<rparr>)) =
     Inr (ApiResponse 500 ''Error: Item not retrieved''
            (ErrorData (StoreFault ServiceUnavailable)))
   \<and> fst (getRecipe env0 (path ''alice'' ''r9'') db0) =
     Inr (ApiResponse 404 ''Error: Item not found'' NoData)
   \<and> fst (getAllRecipes no_tag env0 no_body db0) =
     Inr (Response 500 (BodyText ''Server Error''))
   \<and> fst (getAllRecipes no_tag env1 no_body db0) =
     Inr (Response 500 (BodyText ''Server Error''))"
  using handler_failures [of "post bare_body" bare_body bare_item Like_schema env0 db0]
  by (simp add: example_defs handler_defs store_defs Like_schema_def)

text \<open>
  C8 as stated fails: the response to a like that the store refused carries the store's
  own fault as data, the response to a like that the schema rejected has the same status
  and message as that one, and so has the response to a read while the store does not
  answer: no response tells a validation failure from a store fault by its status.
\<close>

theorem handler_failures_counterexample:
  "fst (likeRecipe Like_schema env0 (post like_body) db0) =
     Inr (ApiResponse 500 ''Error: Cannot create like''
            (ErrorData (StoreFault ValidationException)))
   \<and> fst (likeRecipe Like_schema env0 (post bare_body) db0) =
     Inr (ApiResponse 500 ''Error: Cannot create like'' (ErrorData ZodError))
   \<and> fst (getRecipe env0 (path ''alice'' ''r1'') (db0\<lparr>available := False\<rparr>)) =
     Inr (ApiResponse 500 ''Error: Item not retrieved''
            (ErrorData (StoreFault ServiceUnavailable)))"
  by (simp add: example_defs handler_defs store_defs Like_schema_def)

text \<open>
  C10: when the event has no body, or a body that is not JSON, \<open>likeRecipe\<close> ends with the
  SyntaxError of the parse, uncaught, whatever the schema; it returns no response, and the
  store is exactly as before.
\<close>

theorem likeRecipe_unparsed_body_throws:
  assumes "body ev = Missing \<or> body ev = Malformed"
  shows "likeRecipe schema env ev d = (Inl SyntaxError, d)"
  using assms by (auto simp: likeRecipe_def)

text \<open>C10 for an event without a body.\<close>

theorem likeRecipe_unparsed_body_throws_witness:
  "body no_body = Missing \<and> likeRecipe Like_schema env0 no_body db0 = (Inl SyntaxError, db0)"
  using likeRecipe_unparsed_body_throws [of no_body Like_schema env0 db0]
  by (simp add: no_body_def)

end
